theory Spec2Isabelle
  imports Complex_Main "HOL-Library.Word"
begin

section \<open>The encrypted ledger of app.py\<close>

text \<open>
  The program keeps one row per user; the balance of a row is a serialized CKKS
  ciphertext. Deposits, withdrawals and transfers deserialize the stored ciphertexts, add
  or subtract a fresh encryption of the amount, and store the serialized result.

  A finite Python float is modelled as the real number it stands for. The amount of a
  request is \<^verbatim>\<open>float(request.form['amount'])\<close>, which may also be an infinity or
  not a number. Parsing of form fields is left to the caller: the routes receive the
  amount as a float.
\<close>

subsection \<open>Floats\<close>

datatype pyfloat = Finite real | PosInf | NegInf | NaN

text \<open>
  \<^verbatim>\<open>b >= amount\<close> for a finite \<open>b\<close>: a comparison with not-a-number is false, every
  finite number is below the positive and above the negative infinity.
\<close>

fun float_ge :: "real \<Rightarrow> pyfloat \<Rightarrow> bool" where
  "float_ge b (Finite a) = (b \<ge> a)"
| "float_ge b PosInf = False"
| "float_ge b NegInf = True"
| "float_ge b NaN = False"

subsection \<open>The encryption library and the float arithmetic\<close>

type_synonym bytes = "8 word list"

text \<open>
  The TenSEAL context is a parameter of the model. \<open>ckks_vector\<close> is
  \<^verbatim>\<open>ts.ckks_vector(context, [v])\<close>, which raises on a value it cannot encode
  (\<open>None\<close> here); \<open>ckks_vector_from\<close> is \<^verbatim>\<open>ts.ckks_vector_from(context, blob)\<close>,
  which raises on bytes that are no ciphertext (\<open>None\<close> here); \<open>decrypt\<close> is
  \<^verbatim>\<open>c.decrypt()[0]\<close>, the first slot; \<open>ckks_add\<close> and \<open>ckks_sub\<close> are
  \<^verbatim>\<open>+\<close> and \<^verbatim>\<open>-\<close> on ciphertexts; \<open>serialize\<close> is \<^verbatim>\<open>c.serialize()\<close>.
  \<open>supported\<close> is the range of plaintexts the parameters of the context can hold.
  The last field is not of TenSEAL but of Python: \<open>float_of x\<close> is the float nearest to
  the real number \<open>x\<close>.
\<close>

record 'c ckks_context =
  ckks_vector :: "pyfloat \<Rightarrow> 'c option"
  ckks_vector_from :: "bytes \<Rightarrow> 'c option"
  decrypt :: "'c \<Rightarrow> real"
  ckks_add :: "'c \<Rightarrow> 'c \<Rightarrow> 'c"
  ckks_sub :: "'c \<Rightarrow> 'c \<Rightarrow> 'c"
  serialize :: "'c \<Rightarrow> bytes"
  supported :: "real \<Rightarrow> bool"
  float_of :: "real \<Rightarrow> real"

text \<open>
  What the program relies on from the library, with the approximation error \<open>tol\<close> of
  the scheme: a supported value is encoded, and its fresh encryption decrypts to it within
  \<open>tol\<close>; a sum or difference of ciphertexts decrypts to the sum or difference of the
  plaintexts within \<open>tol\<close>, as long as that sum or difference is in the supported range;
  and a serialized ciphertext is a non-empty byte string that deserializes to the same
  ciphertext.
\<close>

definition ckks_laws :: "'c ckks_context \<Rightarrow> real \<Rightarrow> bool" where
  "ckks_laws ctx tol \<longleftrightarrow>
     0 \<le> tol \<and>
     (\<forall>x. supported ctx x \<longrightarrow>
        (\<exists>c. ckks_vector ctx (Finite x) = Some c \<and> \<bar>decrypt ctx c - x\<bar> \<le> tol)) \<and>
     (\<forall>a b. supported ctx (decrypt ctx a + decrypt ctx b) \<longrightarrow>
        \<bar>decrypt ctx (ckks_add ctx a b) - (decrypt ctx a + decrypt ctx b)\<bar> \<le> tol) \<and>
     (\<forall>a b. supported ctx (decrypt ctx a - decrypt ctx b) \<longrightarrow>
        \<bar>decrypt ctx (ckks_sub ctx a b) - (decrypt ctx a - decrypt ctx b)\<bar> \<le> tol) \<and>
     (\<forall>c. ckks_vector_from ctx (serialize ctx c) = Some c) \<and>
     (\<forall>c. serialize ctx c \<noteq> [])"

subsection \<open>Rounding to two fractional digits\<close>

text \<open>
  \<^verbatim>\<open>round(x, 2)\<close> on a float: the hundredth nearest to the number the float stands
  for, ties going to the even neighbour, and then the float nearest to that hundredth.
\<close>

definition round_half_even :: "real \<Rightarrow> int" where
  "round_half_even y =
     (let f = \<lfloor>y\<rfloor>; d = y - of_int f
      in if d < 1 / 2 then f
         else if 1 / 2 < d then f + 1
         else if even f then f else f + 1)"

definition py_round2 :: "'c ckks_context \<Rightarrow> real \<Rightarrow> real" where
  "py_round2 ctx x = float_of ctx (of_int (round_half_even (x * 100)) / 100)"

subsection \<open>The table of users\<close>

record user =
  uid :: nat
  username :: string
  password :: string
  encrypted_balance :: "bytes option"

type_synonym db = "user list"

datatype exn = Deserialization_failed | No_such_user | Encoding_failed

text \<open>The getter of the property \<open>balance\<close>: an absent or empty blob reads as \<open>0.0\<close>.\<close>

definition balance :: "'c ckks_context \<Rightarrow> user \<Rightarrow> exn + real" where
  "balance ctx u =
     (case encrypted_balance u of
        None \<Rightarrow> Inr 0
      | Some blob \<Rightarrow>
          if blob = [] then Inr 0
          else (case ckks_vector_from ctx blob of
                  None \<Rightarrow> Inl Deserialization_failed
                | Some encrypted \<Rightarrow> Inr (py_round2 ctx (decrypt ctx encrypted))))"

text \<open>
  The setter of the property \<open>balance\<close>; it raises when the library does not encode the
  value.
\<close>

definition set_balance :: "'c ckks_context \<Rightarrow> user \<Rightarrow> pyfloat \<Rightarrow> exn + user" where
  "set_balance ctx u v =
     (case ckks_vector ctx v of
        None \<Rightarrow> Inl Encoding_failed
      | Some encrypted \<Rightarrow> Inr (u\<lparr>encrypted_balance := Some (serialize ctx encrypted)\<rparr>))"

text \<open>
  The two halves of the codec as the property has them: encoding is the setter's
  \<^verbatim>\<open>ts.ckks_vector(context, [float(value)]).serialize()\<close>, decoding is the getter's
  \<^verbatim>\<open>ts.ckks_vector_from(context, blob).decrypt()[0]\<close>, before it is rounded.
\<close>

definition encode_balance :: "'c ckks_context \<Rightarrow> pyfloat \<Rightarrow> bytes option" where
  "encode_balance ctx v = map_option (serialize ctx) (ckks_vector ctx v)"

definition decode_balance :: "'c ckks_context \<Rightarrow> bytes \<Rightarrow> real option" where
  "decode_balance ctx blob = map_option (decrypt ctx) (ckks_vector_from ctx blob)"

text \<open>
  \<^verbatim>\<open>ts.ckks_vector_from(context, user.encrypted_balance)\<close> as the routes call it, on the
  column itself: it raises on \<open>None\<close> too.
\<close>

definition load_balance :: "'c ckks_context \<Rightarrow> user \<Rightarrow> 'c option" where
  "load_balance ctx u =
     (case encrypted_balance u of None \<Rightarrow> None | Some blob \<Rightarrow> ckks_vector_from ctx blob)"

text \<open>\<^verbatim>\<open>User.query.get(id)\<close> and \<^verbatim>\<open>User.query.filter_by(username=name).first()\<close>.\<close>

definition query_get :: "db \<Rightarrow> nat \<Rightarrow> user option" where
  "query_get d i = find (\<lambda>u. uid u = i) d"

definition query_first :: "db \<Rightarrow> string \<Rightarrow> user option" where
  "query_first d name = find (\<lambda>u. username u = name) d"

text \<open>
  An assignment to \<open>encrypted_balance\<close> of a loaded row, as the commit writes it: the
  row with that primary key gets the new blob. Two loaded rows with the same primary key
  are one object, so a second assignment replaces the first.
\<close>

definition store_blob :: "db \<Rightarrow> nat \<Rightarrow> bytes \<Rightarrow> db" where
  "store_blob d i blob =
     map (\<lambda>u. if uid u = i then u\<lparr>encrypted_balance := Some blob\<rparr> else u) d"

text \<open>The primary key of a new row: one more than the largest key in the table.\<close>

definition next_id :: "db \<Rightarrow> nat" where
  "next_id d = Suc (fold max (map uid d) 0)"

subsection \<open>The routes\<close>

datatype http_method = GET | POST

text \<open>
  What a request ends in: the redirect to the login page of a request without a session,
  the form of a GET request, the success flash, the error flash, or an exception, after
  which nothing is committed.
\<close>

datatype outcome = To_login | Form | Success | Failure | Raised exn

definition register :: "'c ckks_context \<Rightarrow> (string \<Rightarrow> string) \<Rightarrow> http_method \<Rightarrow> string \<Rightarrow> string \<Rightarrow> db \<Rightarrow> outcome \<times> db" where
  "register ctx generate_password_hash m name pw d =
     (if m = POST then
        (case query_first d name of
           Some existing_user \<Rightarrow> (Failure, d)
         | None \<Rightarrow>
             (case set_balance ctx
                   \<lparr>uid = next_id d, username = name,
                    password = generate_password_hash pw, encrypted_balance = None\<rparr>
                   (Finite 0) of
                Inl e \<Rightarrow> (Raised e, d)
              | Inr new_user \<Rightarrow> (Success, d @ [new_user])))
      else (Form, d))"

definition transfer :: "'c ckks_context \<Rightarrow> nat option \<Rightarrow> http_method \<Rightarrow> pyfloat \<Rightarrow> string \<Rightarrow> db \<Rightarrow> outcome \<times> db" where
  "transfer ctx session m amount recipient_username d =
     (case session of
        None \<Rightarrow> (To_login, d)
      | Some user_id \<Rightarrow>
          if m = POST then
            (case query_first d recipient_username of
               None \<Rightarrow> (Failure, d)
             | Some recipient \<Rightarrow>
                 (case query_get d user_id of
                    None \<Rightarrow> (Raised No_such_user, d)
                  | Some sender \<Rightarrow>
                      (case balance ctx sender of
                         Inl e \<Rightarrow> (Raised e, d)
                       | Inr b \<Rightarrow>
                           if float_ge b amount then
                             (case load_balance ctx sender of
                                None \<Rightarrow> (Raised Deserialization_failed, d)
                              | Some sender_balance \<Rightarrow>
                                  (case load_balance ctx recipient of
                                     None \<Rightarrow> (Raised Deserialization_failed, d)
                                   | Some recipient_balance \<Rightarrow>
                                       (case ckks_vector ctx amount of
                                          None \<Rightarrow> (Raised Encoding_failed, d)
                                        | Some transfer_amount \<Rightarrow>
                                            let new_sender_balance = ckks_sub ctx sender_balance transfer_amount;
                                                new_recipient_balance = ckks_add ctx recipient_balance transfer_amount
                                            in (Success,
                                                store_blob
                                                  (store_blob d (uid sender) (serialize ctx new_sender_balance))
                                                  (uid recipient) (serialize ctx new_recipient_balance)))))
                           else (Failure, d))))
          else (Form, d))"

definition deposit :: "'c ckks_context \<Rightarrow> nat option \<Rightarrow> http_method \<Rightarrow> pyfloat \<Rightarrow> db \<Rightarrow> outcome \<times> db" where
  "deposit ctx session m amount d =
     (case session of
        None \<Rightarrow> (To_login, d)
      | Some user_id \<Rightarrow>
          if m = POST then
            (case query_get d user_id of
               None \<Rightarrow> (Raised No_such_user, d)
             | Some u \<Rightarrow>
                 (case load_balance ctx u of
                    None \<Rightarrow> (Raised Deserialization_failed, d)
                  | Some current_balance \<Rightarrow>
                      (case ckks_vector ctx amount of
                         None \<Rightarrow> (Raised Encoding_failed, d)
                       | Some deposit_amount \<Rightarrow>
                           let new_balance = ckks_add ctx current_balance deposit_amount
                           in (Success, store_blob d (uid u) (serialize ctx new_balance)))))
          else (Form, d))"

definition withdraw :: "'c ckks_context \<Rightarrow> nat option \<Rightarrow> http_method \<Rightarrow> pyfloat \<Rightarrow> db \<Rightarrow> outcome \<times> db" where
  "withdraw ctx session m amount d =
     (case session of
        None \<Rightarrow> (To_login, d)
      | Some user_id \<Rightarrow>
          if m = POST then
            (case query_get d user_id of
               None \<Rightarrow> (Raised No_such_user, d)
             | Some u \<Rightarrow>
                 (case balance ctx u of
                    Inl e \<Rightarrow> (Raised e, d)
                  | Inr b \<Rightarrow>
                      if float_ge b amount then
                        (case load_balance ctx u of
                           None \<Rightarrow> (Raised Deserialization_failed, d)
                         | Some current_balance \<Rightarrow>
                             (case ckks_vector ctx amount of
                                None \<Rightarrow> (Raised Encoding_failed, d)
                              | Some withdraw_amount \<Rightarrow>
                                  let new_balance = ckks_sub ctx current_balance withdraw_amount
                                  in (Success, store_blob d (uid u) (serialize ctx new_balance))))
                      else (Failure, d)))
          else (Form, d))"

subsection \<open>A fixed-point instance of the library\<close>

text \<open>
  An instance of the parameter on which the routes can be run. It encodes the finite
  values below \<open>2^99\<close> in magnitude, the bound of a context with a scale of \<open>2^40\<close> and
  140 bits of coefficient modulus for the data, and raises on all others. A ciphertext is
  the plaintext in millionths, rounded to the nearest integer, and is serialized as a
  sign byte followed by the base-256 digits of its magnitude; the approximation error is
  half a millionth. Its floats are the multiples of \<open>2^-20\<close>.
\<close>

fun nat_bytes :: "nat \<Rightarrow> bytes" where
  "nat_bytes n = (if n = 0 then [] else word_of_nat (n mod 256) # nat_bytes (n div 256))"

fun bytes_nat :: "bytes \<Rightarrow> nat" where
  "bytes_nat [] = 0"
| "bytes_nat (b # bs) = unat b + 256 * bytes_nat bs"

definition int_to_blob :: "int \<Rightarrow> bytes" where
  "int_to_blob i = (if i < 0 then 1 else 0) # nat_bytes (nat \<bar>i\<bar>)"

definition blob_to_int :: "bytes \<Rightarrow> int option" where
  "blob_to_int blob =
     (case blob of
        [] \<Rightarrow> None
      | s # ds \<Rightarrow>
          if s = 0 then Some (int (bytes_nat ds))
          else if s = 1 then Some (- int (bytes_nat ds))
          else None)"

fun fixed_encode :: "pyfloat \<Rightarrow> int option" where
  "fixed_encode (Finite x) = (if \<bar>x\<bar> < 2 ^ 99 then Some (round (x * 1000000)) else None)"
| "fixed_encode v = None"

definition fixed_ctx :: "int ckks_context" where
  "fixed_ctx =
     \<lparr>ckks_vector = fixed_encode,
      ckks_vector_from = blob_to_int,
      decrypt = (\<lambda>c. of_int c / 1000000),
      ckks_add = (\<lambda>a b. a + b),
      ckks_sub = (\<lambda>a b. a - b),
      serialize = int_to_blob,
      supported = (\<lambda>x. \<bar>x\<bar> < 2 ^ 99),
      float_of = (\<lambda>x. of_int (round (x * 1048576)) / 1048576)\<rparr>"

text \<open>A row named alice with primary key 1 and the given blob.\<close>

definition alice :: "bytes option \<Rightarrow> user" where
  "alice blob = \<lparr>uid = 1, username = ''alice'', password = ''x'', encrypted_balance = blob\<rparr>"

text \<open>A row named bob with primary key 2 and the given blob.\<close>

definition bob :: "bytes option \<Rightarrow> user" where
  "bob blob = \<lparr>uid = 2, username = ''bob'', password = ''y'', encrypted_balance = blob\<rparr>"

text \<open>A table with the rows of alice and bob, holding the given ciphertexts.\<close>

definition two_rows :: "int \<Rightarrow> int \<Rightarrow> db" where
  "two_rows a b = [alice (Some (serialize fixed_ctx a)), bob (Some (serialize fixed_ctx b))]"

subsection \<open>The total of the ledger\<close>

text \<open>
  The decrypted balance of a row, before rounding, and the sum of the decrypted balances
  of all rows: the quantity that deposits, withdrawals and transfers are meant to conserve.
  A row without a ciphertext counts as zero.
\<close>

definition decrypted :: "'c ckks_context \<Rightarrow> user \<Rightarrow> real" where
  "decrypted ctx u = (case load_balance ctx u of None \<Rightarrow> 0 | Some c \<Rightarrow> decrypt ctx c)"

definition total :: "'c ckks_context \<Rightarrow> db \<Rightarrow> real" where
  "total ctx d = sum_list (map (decrypted ctx) d)"

subsection \<open>Sequences of requests\<close>

text \<open>
  A logged-in user's POST request to one of the three routes with a finite amount, the
  route it is handled by, the table after a sequence of requests, and the amounts
  deposited minus the amounts withdrawn by the requests of the sequence that succeed.
  \<open>to_other\<close> says that a transfer names a recipient other than its sender.
  \<open>in_range\<close> says that the amount, and the sum and difference of any stored balance
  and the encrypted amount, are in the range the context supports; \<open>all_in_range\<close>
  says so of every request of a sequence, on the table it meets.
\<close>

datatype request = Deposit nat real | Withdraw nat real | Transfer nat real string

fun handle :: "'c ckks_context \<Rightarrow> request \<Rightarrow> db \<Rightarrow> outcome \<times> db" where
  "handle ctx (Deposit i a) d = deposit ctx (Some i) POST (Finite a) d"
| "handle ctx (Withdraw i a) d = withdraw ctx (Some i) POST (Finite a) d"
| "handle ctx (Transfer i a name) d = transfer ctx (Some i) POST (Finite a) name d"

fun net :: "request \<Rightarrow> real" where
  "net (Deposit i a) = a"
| "net (Withdraw i a) = - a"
| "net (Transfer i a name) = 0"

fun amount_of :: "request \<Rightarrow> real" where
  "amount_of (Deposit i a) = a"
| "amount_of (Withdraw i a) = a"
| "amount_of (Transfer i a name) = a"

fun run :: "'c ckks_context \<Rightarrow> request list \<Rightarrow> db \<Rightarrow> db" where
  "run ctx [] d = d"
| "run ctx (r # rs) d = run ctx rs (snd (handle ctx r d))"

fun net_total :: "'c ckks_context \<Rightarrow> request list \<Rightarrow> db \<Rightarrow> real" where
  "net_total ctx [] d = 0"
| "net_total ctx (r # rs) d =
     (if fst (handle ctx r d) = Success then net r else 0) + net_total ctx rs (snd (handle ctx r d))"

fun to_other :: "db \<Rightarrow> request \<Rightarrow> bool" where
  "to_other d (Transfer i a name) =
     (case query_first d name of None \<Rightarrow> True | Some r \<Rightarrow> uid r \<noteq> i)"
| "to_other d r = True"

definition in_range :: "'c ckks_context \<Rightarrow> db \<Rightarrow> real \<Rightarrow> bool" where
  "in_range ctx d x \<longleftrightarrow>
     supported ctx x \<and>
     (\<forall>u \<in> set d. \<forall>c ta. load_balance ctx u = Some c \<and> ckks_vector ctx (Finite x) = Some ta \<longrightarrow>
        supported ctx (decrypt ctx c + decrypt ctx ta) \<and>
        supported ctx (decrypt ctx c - decrypt ctx ta))"

fun all_in_range :: "'c ckks_context \<Rightarrow> request list \<Rightarrow> db \<Rightarrow> bool" where
  "all_in_range ctx [] d = True"
| "all_in_range ctx (r # rs) d =
     (in_range ctx d (amount_of r) \<and> all_in_range ctx rs (snd (handle ctx r d)))"

section \<open>Properties\<close>

subsection \<open>Rounding\<close>

lemma round_half_even_bound: "\<bar>of_int (round_half_even y) - y\<bar> \<le> 1 / 2"
  unfolding round_half_even_def Let_def by (auto; linarith)

lemma round_half_even_near:
  assumes "\<bar>y - of_int k\<bar> < 1 / 2"
  shows "round_half_even y = k"
proof -
  have "\<bar>of_int (round_half_even y) - y\<bar> \<le> 1 / 2" by (rule round_half_even_bound)
  with assms have "\<bar>(of_int (round_half_even y) :: real) - of_int k\<bar> < 1" by linarith
  then have "\<bar>round_half_even y - k\<bar> < 1"
    by (metis of_int_diff of_int_abs of_int_less_1_iff)
  then show ?thesis by linarith
qed

lemma py_round2_zero: "\<bar>y\<bar> < 1 / 200 \<Longrightarrow> py_round2 ctx y = float_of ctx 0"
proof -
  assume "\<bar>y\<bar> < 1 / 200"
  then have "\<bar>y * 100 - of_int 0\<bar> < 1 / 2" by (simp add: field_simps abs_less_iff)
  then have "round_half_even (y * 100) = 0" by (rule round_half_even_near)
  then show ?thesis by (simp add: py_round2_def)
qed

subsection \<open>The fixed-point instance satisfies the laws\<close>

declare nat_bytes.simps [simp del]

lemma bytes_nat_nat_bytes: "bytes_nat (nat_bytes n) = n"
proof (induction n rule: nat_bytes.induct)
  case (1 n)
  show ?case
  proof (cases "n = 0")
    case True
    then show ?thesis by (simp add: nat_bytes.simps)
  next
    case False
    have "unat (word_of_nat (n mod 256) :: 8 word) = n mod 256"
      by (simp add: unat_of_nat)
    with False 1 show ?thesis
      by (subst nat_bytes.simps) simp
  qed
qed

lemma blob_to_int_int_to_blob: "blob_to_int (int_to_blob i) = Some i"
  by (simp add: blob_to_int_def int_to_blob_def bytes_nat_nat_bytes)

lemma int_to_blob_nonempty: "int_to_blob i \<noteq> []"
  by (simp add: int_to_blob_def)

lemma fixed_laws: "ckks_laws fixed_ctx (1 / 2000000)"
proof -
  have "\<bar>real_of_int (round (x * 1000000)) / 1000000 - x\<bar> \<le> 1 / 2000000" for x :: real
  proof -
    have "\<bar>of_int (round (x * 1000000)) - x * 1000000\<bar> \<le> 1 / 2"
      by (rule of_int_round_abs_le)
    then show ?thesis by (simp add: field_simps abs_le_iff)
  qed
  then show ?thesis
    by (simp add: ckks_laws_def fixed_ctx_def blob_to_int_int_to_blob int_to_blob_nonempty
        add_divide_distrib diff_divide_distrib)
qed

subsection \<open>Reading and writing rows\<close>

lemma query_get_uid: "query_get d i = Some u \<Longrightarrow> uid u = i"
  unfolding query_get_def by (induction d) (auto split: if_splits)

lemma query_get_store_same:
  "query_get d i = Some u \<Longrightarrow>
   query_get (store_blob d i blob) i = Some (u\<lparr>encrypted_balance := Some blob\<rparr>)"
  unfolding query_get_def store_blob_def by (induction d) (auto split: if_splits)

lemma query_get_store_other:
  "i \<noteq> j \<Longrightarrow> query_get (store_blob d j blob) i = query_get d i"
  unfolding query_get_def store_blob_def by (induction d) (auto split: if_splits)

lemma store_blob_twice: "store_blob (store_blob d i x) i y = store_blob d i y"
  unfolding store_blob_def by (induction d) auto

lemma load_balance_serialize:
  "ckks_laws ctx tol \<Longrightarrow>
   load_balance ctx (u\<lparr>encrypted_balance := Some (serialize ctx c)\<rparr>) = Some c"
  by (simp add: load_balance_def ckks_laws_def)

lemma balance_serialize:
  "ckks_laws ctx tol \<Longrightarrow>
   balance ctx (u\<lparr>encrypted_balance := Some (serialize ctx c)\<rparr>) =
     Inr (py_round2 ctx (decrypt ctx c))"
  by (simp add: balance_def ckks_laws_def)

lemma query_first_append_new:
  "query_first d name = None \<Longrightarrow> username u = name \<Longrightarrow> query_first (d @ [u]) name = Some u"
  unfolding query_first_def by (induction d) (auto split: if_splits)

lemma withdraw_unchanged:
  "fst (withdraw ctx session m amount d) \<noteq> Success \<Longrightarrow> snd (withdraw ctx session m amount d) = d"
  by (auto simp: withdraw_def Let_def split: option.splits sum.splits if_splits)

lemma transfer_unchanged:
  "fst (transfer ctx session m amount name d) \<noteq> Success \<Longrightarrow>
   snd (transfer ctx session m amount name d) = d"
  by (auto simp: transfer_def Let_def split: option.splits sum.splits if_splits)

lemma deposit_unchanged:
  "fst (deposit ctx session m amount d) \<noteq> Success \<Longrightarrow> snd (deposit ctx session m amount d) = d"
  by (auto simp: deposit_def Let_def split: option.splits sum.splits if_splits)

lemma balance_loaded:
  "encrypted_balance u = Some blob \<Longrightarrow> blob \<noteq> [] \<Longrightarrow> ckks_vector_from ctx blob = Some c \<Longrightarrow>
   balance ctx u = Inr (py_round2 ctx (decrypt ctx c)) \<and> load_balance ctx u = Some c"
  by (simp add: balance_def load_balance_def)

lemma encode_accurate:
  assumes "ckks_laws ctx tol" and "supported ctx x" and "ckks_vector ctx (Finite x) = Some c"
  shows "\<bar>decrypt ctx c - x\<bar> \<le> tol"
proof -
  from assms(1,2) obtain c' where "ckks_vector ctx (Finite x) = Some c'"
    and "\<bar>decrypt ctx c' - x\<bar> \<le> tol"
    unfolding ckks_laws_def by blast
  with assms(3) show ?thesis by simp
qed

lemma add_accurate:
  "ckks_laws ctx tol \<Longrightarrow> supported ctx (decrypt ctx a + decrypt ctx b) \<Longrightarrow>
   \<bar>decrypt ctx (ckks_add ctx a b) - (decrypt ctx a + decrypt ctx b)\<bar> \<le> tol"
  unfolding ckks_laws_def by blast

lemma sub_accurate:
  "ckks_laws ctx tol \<Longrightarrow> supported ctx (decrypt ctx a - decrypt ctx b) \<Longrightarrow>
   \<bar>decrypt ctx (ckks_sub ctx a b) - (decrypt ctx a - decrypt ctx b)\<bar> \<le> tol"
  unfolding ckks_laws_def by blast

subsection \<open>Running the routes on the fixed-point instance\<close>

lemma fixed_encode_some:
  "\<bar>x\<bar> < 2 ^ 99 \<Longrightarrow> ckks_vector fixed_ctx (Finite x) = Some (round (x * 1000000))"
  by (simp add: fixed_ctx_def)

lemma fixed_encode_none: "2 ^ 99 \<le> \<bar>x\<bar> \<Longrightarrow> ckks_vector fixed_ctx (Finite x) = None"
  by (simp add: fixed_ctx_def)

lemma fixed_encode_nonfinite:
  "ckks_vector fixed_ctx NaN = None \<and> ckks_vector fixed_ctx PosInf = None \<and>
   ckks_vector fixed_ctx NegInf = None"
  by (simp add: fixed_ctx_def)

lemma fixed_float_of_int: "float_of fixed_ctx (of_int k) = of_int k"
proof -
  have "round (real_of_int k * 1048576) = k * 1048576"
    by (metis of_int_mult of_int_numeral round_of_int)
  then show ?thesis by (simp add: fixed_ctx_def)
qed

lemma fixed_round_whole:
  "py_round2 fixed_ctx (decrypt fixed_ctx (k * 1000000)) = of_int k"
proof -
  have "round_half_even (real_of_int k * 100) = k * 100"
    using round_half_even_near [of "real_of_int k * 100" "k * 100"] by simp
  then have "py_round2 fixed_ctx (real_of_int k) = float_of fixed_ctx (of_int k)"
    by (simp add: py_round2_def)
  then show ?thesis by (simp add: fixed_float_of_int) (simp add: fixed_ctx_def)
qed

lemma fixed_serialize_inj: "serialize fixed_ctx a = serialize fixed_ctx b \<longleftrightarrow> a = b"
proof
  assume "serialize fixed_ctx a = serialize fixed_ctx b"
  then have "blob_to_int (int_to_blob a) = blob_to_int (int_to_blob b)"
    by (simp add: fixed_ctx_def)
  then show "a = b" by (simp add: blob_to_int_int_to_blob)
qed simp

lemma alice_get: "query_get [alice blob] 1 = Some (alice blob)"
  by (simp add: query_get_def alice_def)

lemma alice_get_Suc: "query_get [alice blob] (Suc 0) = Some (alice blob)"
  by (simp add: query_get_def alice_def)

lemma alice_uid: "uid (alice blob) = Suc 0"
  by (simp add: alice_def)

lemma bob_uid: "uid (bob blob) = 2"
  by (simp add: bob_def)

lemma alice_first: "query_first [alice blob] ''alice'' = Some (alice blob)"
  by (simp add: query_first_def alice_def)

lemma fixed_load: "load_balance fixed_ctx (alice (Some (serialize fixed_ctx c))) = Some c"
  using load_balance_serialize [OF fixed_laws, where u = "alice None" and c = c] by (simp add: alice_def)

lemma fixed_load_bob: "load_balance fixed_ctx (bob (Some (serialize fixed_ctx c))) = Some c"
  using load_balance_serialize [OF fixed_laws, where u = "bob None" and c = c] by (simp add: bob_def)

lemma fixed_balance:
  "balance fixed_ctx (alice (Some (serialize fixed_ctx c))) =
     Inr (py_round2 fixed_ctx (decrypt fixed_ctx c))"
  using balance_serialize [OF fixed_laws, where u = "alice None" and c = c]
  by (simp add: alice_def)

lemma fixed_blob:
  "encrypted_balance (alice (Some (serialize fixed_ctx c))) = Some (serialize fixed_ctx c) \<and>
   serialize fixed_ctx c \<noteq> [] \<and> ckks_vector_from fixed_ctx (serialize fixed_ctx c) = Some c"
  using fixed_laws by (simp add: alice_def ckks_laws_def)

lemma store_alice: "store_blob [alice blob] (Suc 0) blob' = [alice (Some blob')]"
  by (simp add: store_blob_def alice_def)

lemma two_rows_get: "query_get (two_rows a b) 1 = Some (alice (Some (serialize fixed_ctx a)))"
  by (simp add: two_rows_def query_get_def alice_def)

lemma two_rows_get_Suc: "query_get (two_rows a b) (Suc 0) = Some (alice (Some (serialize fixed_ctx a)))"
  by (simp add: two_rows_def query_get_def alice_def)

lemma two_rows_first_alice: "query_first (two_rows a b) ''alice'' = Some (alice (Some (serialize fixed_ctx a)))"
  by (simp add: two_rows_def query_first_def alice_def)

lemma two_rows_first_bob: "query_first (two_rows a b) ''bob'' = Some (bob (Some (serialize fixed_ctx b)))"
  by (simp add: two_rows_def query_first_def alice_def bob_def)

lemma store_two_rows_alice: "store_blob (two_rows a b) (Suc 0) (serialize fixed_ctx a') = two_rows a' b"
  by (simp add: store_blob_def two_rows_def alice_def bob_def)

lemma store_two_rows_bob: "store_blob (two_rows a b) 2 (serialize fixed_ctx b') = two_rows a b'"
  by (simp add: store_blob_def two_rows_def alice_def bob_def)

lemma two_rows_inj: "two_rows a b = two_rows a' b' \<longleftrightarrow> a = a' \<and> b = b'"
  by (auto simp: two_rows_def alice_def bob_def fixed_serialize_inj)

lemma total_two_rows: "total fixed_ctx (two_rows a b) = of_int a / 1000000 + of_int b / 1000000"
  by (simp add: total_def decrypted_def two_rows_def fixed_load fixed_load_bob) (simp add: fixed_ctx_def)

subsection \<open>The balance getter\<close>

text \<open>
  Claim C9. A row whose blob is absent reads as balance \<open>0.0\<close>, with no error; the getter
  fails only on a blob that is present, non-empty and not deserializable.
\<close>

theorem balance_absent_blob:
  "(encrypted_balance u = None \<longrightarrow> balance ctx u = Inr 0) \<and>
   (balance ctx u = Inl e \<longrightarrow>
      (\<exists>blob. encrypted_balance u = Some blob \<and> blob \<noteq> [] \<and> ckks_vector_from ctx blob = None))"
  by (auto simp: balance_def split: option.splits if_splits)

theorem balance_absent_blob_witness:
  "encrypted_balance (alice None) = None \<and> balance fixed_ctx (alice None) = Inr 0 \<and>
   balance fixed_ctx (alice (Some [2])) = Inl Deserialization_failed \<and>
   (\<exists>blob. encrypted_balance (alice (Some [2])) = Some blob \<and> blob \<noteq> [] \<and>
      ckks_vector_from fixed_ctx blob = None)"
proof -
  have a: "encrypted_balance (alice None) = None" by (simp add: alice_def)
  have b: "balance fixed_ctx (alice (Some [2])) = Inl Deserialization_failed"
    by (simp add: balance_def alice_def fixed_ctx_def blob_to_int_def)
  from a b balance_absent_blob [of "alice None" fixed_ctx]
    balance_absent_blob [of "alice (Some [2])" fixed_ctx Deserialization_failed]
  show ?thesis by blast
qed

subsection \<open>Registration\<close>

text \<open>
  Claim C8. A successful registration appends one row whose blob is the serialized
  encryption of \<open>0.0\<close>; looking the new name up yields that row, and its balance reads
  \<open>0.0\<close> when the approximation error of the scheme is below half a cent. (The float
  nearest to zero is zero.)
\<close>

theorem register_zero_balance:
  assumes laws: "ckks_laws ctx tol" and tol: "tol < 1 / 200" and zero: "supported ctx 0"
    and fz: "float_of ctx 0 = 0"
    and reg: "register ctx generate_password_hash POST name pw d = (Success, d')"
  shows "\<exists>u c. d' = d @ [u] \<and> query_first d' name = Some u \<and>
             ckks_vector ctx (Finite 0) = Some c \<and>
             encrypted_balance u = Some (serialize ctx c) \<and>
             balance ctx u = Inr 0"
proof -
  from reg have none: "query_first d name = None"
    by (auto simp: register_def split: option.splits)
  from laws zero obtain c where enc: "ckks_vector ctx (Finite 0) = Some c"
    and acc: "\<bar>decrypt ctx c - 0\<bar> \<le> tol"
    unfolding ckks_laws_def by blast
  define u where "u = \<lparr>uid = next_id d, username = name, password = generate_password_hash pw,
      encrypted_balance = Some (serialize ctx c)\<rparr>"
  from reg none enc have d': "d' = d @ [u]"
    by (simp add: register_def set_balance_def u_def)
  have name: "username u = name" by (simp add: u_def)
  have blob: "encrypted_balance u = Some (serialize ctx c)" by (simp add: u_def)
  from acc tol have "py_round2 ctx (decrypt ctx c) = float_of ctx 0"
    by (intro py_round2_zero) simp
  with laws fz have bal: "balance ctx u = Inr 0"
    by (simp add: balance_def blob ckks_laws_def)
  from d' none name enc blob bal show ?thesis
    by (auto simp: query_first_append_new)
qed

theorem register_zero_balance_witness:
  "ckks_laws fixed_ctx (1 / 2000000) \<and> supported fixed_ctx 0 \<and> float_of fixed_ctx 0 = 0 \<and>
   fst (register fixed_ctx id POST ''bob'' ''pw'' [alice None]) = Success \<and>
   (\<exists>u c. snd (register fixed_ctx id POST ''bob'' ''pw'' [alice None]) = [alice None] @ [u] \<and>
        query_first (snd (register fixed_ctx id POST ''bob'' ''pw'' [alice None])) ''bob'' = Some u \<and>
        ckks_vector fixed_ctx (Finite 0) = Some c \<and>
        encrypted_balance u = Some (serialize fixed_ctx c) \<and>
        balance fixed_ctx u = Inr 0)"
proof -
  have s: "supported fixed_ctx 0" by (simp add: fixed_ctx_def)
  have f: "float_of fixed_ctx 0 = 0" by (simp add: fixed_ctx_def)
  have t: "(1::real) / 2000000 < 1 / 200" by simp
  have r: "fst (register fixed_ctx id POST ''bob'' ''pw'' [alice None]) = Success"
    by (simp add: register_def query_first_def alice_def set_balance_def fixed_encode_some)
  then have "register fixed_ctx id POST ''bob'' ''pw'' [alice None] =
      (Success, snd (register fixed_ctx id POST ''bob'' ''pw'' [alice None]))"
    by (metis prod.collapse)
  from register_zero_balance [OF fixed_laws t s f this] fixed_laws s f r
  show ?thesis by blast
qed

subsection \<open>Round trip of the codec\<close>

text \<open>
  Claim C7. For every value in the range the context supports, encoding it as the setter
  does and decoding the stored bytes as the getter does, before the getter rounds, returns
  a value within the approximation error of the scheme of the value encoded. The bytes
  are those the setter stores, and the getter reads the decoded value rounded to two
  fractional digits.
\<close>

theorem codec_round_trip:
  assumes laws: "ckks_laws ctx tol" and sup: "supported ctx x"
  shows "\<exists>blob y. encode_balance ctx (Finite x) = Some blob \<and>
           set_balance ctx u (Finite x) = Inr (u\<lparr>encrypted_balance := Some blob\<rparr>) \<and>
           decode_balance ctx blob = Some y \<and>
           balance ctx (u\<lparr>encrypted_balance := Some blob\<rparr>) = Inr (py_round2 ctx y) \<and>
           \<bar>y - x\<bar> \<le> tol"
proof -
  from laws sup obtain c where enc: "ckks_vector ctx (Finite x) = Some c"
    and acc: "\<bar>decrypt ctx c - x\<bar> \<le> tol"
    unfolding ckks_laws_def by blast
  from laws have des: "ckks_vector_from ctx (serialize ctx c) = Some c"
    unfolding ckks_laws_def by blast
  have "encode_balance ctx (Finite x) = Some (serialize ctx c)"
    by (simp add: encode_balance_def enc)
  moreover have "set_balance ctx u (Finite x) =
      Inr (u\<lparr>encrypted_balance := Some (serialize ctx c)\<rparr>)"
    by (simp add: set_balance_def enc)
  moreover have "decode_balance ctx (serialize ctx c) = Some (decrypt ctx c)"
    by (simp add: decode_balance_def des)
  moreover have "balance ctx (u\<lparr>encrypted_balance := Some (serialize ctx c)\<rparr>) =
      Inr (py_round2 ctx (decrypt ctx c))"
    by (rule balance_serialize [OF laws])
  ultimately show ?thesis using acc by blast
qed

theorem codec_round_trip_witness:
  "ckks_laws fixed_ctx (1 / 2000000) \<and> supported fixed_ctx (1234 / 1000) \<and>
   encode_balance fixed_ctx (Finite (1234 / 1000)) = Some (serialize fixed_ctx 1234000) \<and>
   decode_balance fixed_ctx (serialize fixed_ctx 1234000) = Some (1234 / 1000) \<and>
   (\<exists>blob y. encode_balance fixed_ctx (Finite (1234 / 1000)) = Some blob \<and>
      set_balance fixed_ctx (alice None) (Finite (1234 / 1000)) =
        Inr ((alice None)\<lparr>encrypted_balance := Some blob\<rparr>) \<and>
      decode_balance fixed_ctx blob = Some y \<and>
      balance fixed_ctx ((alice None)\<lparr>encrypted_balance := Some blob\<rparr>) = Inr (py_round2 fixed_ctx y) \<and>
      \<bar>y - 1234 / 1000\<bar> \<le> 1 / 2000000)"
proof -
  have s: "supported fixed_ctx (1234 / 1000)" by (simp add: fixed_ctx_def)
  have e: "encode_balance fixed_ctx (Finite (1234 / 1000)) = Some (serialize fixed_ctx 1234000)"
    by (simp add: encode_balance_def fixed_ctx_def)
  have d: "decode_balance fixed_ctx (serialize fixed_ctx 1234000) = Some (1234 / 1000)"
    by (simp add: decode_balance_def fixed_ctx_def blob_to_int_int_to_blob)
  from codec_round_trip [OF fixed_laws s, where u = "alice None"] fixed_laws s e d
  show ?thesis by blast
qed

subsection \<open>Deposit\<close>

text \<open>
  Claim C6, as the code has it. Deposit checks no sign, but the amount has to be one the
  library encodes. For a row whose stored blob deserializes to a ciphertext \<open>c\<close>, a
  deposit of a finite amount that is encoded, positive, zero or negative, succeeds and
  stores the serialized sum of \<open>c\<close> and the encrypted amount; under the laws of the
  scheme, with the amount and the sum in the supported range, the stored balance then
  decrypts to the previous value plus the amount, within twice the approximation error.
  A deposit of an amount that the library does not encode raises, and the table is
  unchanged.
\<close>

theorem deposit_encoded_amount:
  assumes get: "query_get d i = Some u" and load: "load_balance ctx u = Some c"
  shows "(ckks_vector ctx (Finite amount) = Some da \<longrightarrow>
            deposit ctx (Some i) POST (Finite amount) d =
              (Success, store_blob d i (serialize ctx (ckks_add ctx c da))) \<and>
            (ckks_laws ctx tol \<and> supported ctx amount \<and>
             supported ctx (decrypt ctx c + decrypt ctx da) \<longrightarrow>
               (\<exists>u' c'. query_get (snd (deposit ctx (Some i) POST (Finite amount) d)) i = Some u' \<and>
                         load_balance ctx u' = Some c' \<and>
                         \<bar>decrypt ctx c' - (decrypt ctx c + amount)\<bar> \<le> 2 * tol))) \<and>
         (ckks_vector ctx (Finite amount) = None \<longrightarrow>
            deposit ctx (Some i) POST (Finite amount) d = (Raised Encoding_failed, d))"
proof -
  from get have uid: "uid u = i" by (rule query_get_uid)
  have raised: "deposit ctx (Some i) POST (Finite amount) d = (Raised Encoding_failed, d)"
    if "ckks_vector ctx (Finite amount) = None"
    using that get load by (simp add: deposit_def)
  have dep: "deposit ctx (Some i) POST (Finite amount) d =
      (Success, store_blob d i (serialize ctx (ckks_add ctx c da)))"
    if "ckks_vector ctx (Finite amount) = Some da"
    using that get load uid by (simp add: deposit_def Let_def)
  have approx: "\<exists>u' c'. query_get (snd (deposit ctx (Some i) POST (Finite amount) d)) i = Some u' \<and>
                      load_balance ctx u' = Some c' \<and>
                      \<bar>decrypt ctx c' - (decrypt ctx c + amount)\<bar> \<le> 2 * tol"
    if enc: "ckks_vector ctx (Finite amount) = Some da" and laws: "ckks_laws ctx tol"
      and sup: "supported ctx amount" and range: "supported ctx (decrypt ctx c + decrypt ctx da)"
  proof -
    let ?c' = "ckks_add ctx c da"
    from laws sup enc have e1: "\<bar>decrypt ctx da - amount\<bar> \<le> tol" by (rule encode_accurate)
    from laws range have e2: "\<bar>decrypt ctx ?c' - (decrypt ctx c + decrypt ctx da)\<bar> \<le> tol"
      by (rule add_accurate)
    from e1 e2 have "\<bar>decrypt ctx ?c' - (decrypt ctx c + amount)\<bar> \<le> 2 * tol" by linarith
    moreover have "query_get (snd (deposit ctx (Some i) POST (Finite amount) d)) i =
        Some (u\<lparr>encrypted_balance := Some (serialize ctx ?c')\<rparr>)"
      by (simp add: dep [OF enc] query_get_store_same [OF get])
    moreover have "load_balance ctx (u\<lparr>encrypted_balance := Some (serialize ctx ?c')\<rparr>) = Some ?c'"
      by (rule load_balance_serialize [OF laws])
    ultimately show ?thesis by blast
  qed
  from raised dep approx show ?thesis by blast
qed

theorem deposit_encoded_amount_witness:
  "query_get [alice (Some (serialize fixed_ctx 0))] 1 = Some (alice (Some (serialize fixed_ctx 0))) \<and>
   load_balance fixed_ctx (alice (Some (serialize fixed_ctx 0))) = Some 0 \<and>
   ckks_vector fixed_ctx (Finite (- 50)) = Some (- 50000000) \<and>
   ckks_laws fixed_ctx (1 / 2000000) \<and> supported fixed_ctx (- 50) \<and>
   supported fixed_ctx (decrypt fixed_ctx 0 + decrypt fixed_ctx (- 50000000)) \<and>
   deposit fixed_ctx (Some 1) POST (Finite (- 50)) [alice (Some (serialize fixed_ctx 0))] =
     (Success, store_blob [alice (Some (serialize fixed_ctx 0))] 1
        (serialize fixed_ctx (ckks_add fixed_ctx 0 (- 50000000)))) \<and>
   (\<exists>u' c'. query_get (snd (deposit fixed_ctx (Some 1) POST (Finite (- 50))
                 [alice (Some (serialize fixed_ctx 0))])) 1 = Some u' \<and>
        load_balance fixed_ctx u' = Some c' \<and>
        \<bar>decrypt fixed_ctx c' - (decrypt fixed_ctx 0 + (- 50))\<bar> \<le> 2 * (1 / 2000000)) \<and>
   ckks_vector fixed_ctx (Finite (10 ^ 30)) = None \<and>
   deposit fixed_ctx (Some 1) POST (Finite (10 ^ 30)) [alice (Some (serialize fixed_ctx 0))] =
     (Raised Encoding_failed, [alice (Some (serialize fixed_ctx 0))])"
proof -
  have s: "supported fixed_ctx (- 50)" by (simp add: fixed_ctx_def)
  have e: "ckks_vector fixed_ctx (Finite (- 50)) = Some (- 50000000)"
    by (simp add: fixed_ctx_def)
  have r: "supported fixed_ctx (decrypt fixed_ctx 0 + decrypt fixed_ctx (- 50000000))"
    by (simp add: fixed_ctx_def)
  have n: "ckks_vector fixed_ctx (Finite (10 ^ 30)) = None"
    by (simp add: fixed_ctx_def)
  from deposit_encoded_amount [OF alice_get fixed_load, where amount = "- 50"
      and da = "- 50000000" and tol = "1 / 2000000"]
    deposit_encoded_amount [OF alice_get fixed_load, where amount = "10 ^ 30"
      and da = 0 and tol = "1 / 2000000"]
    alice_get fixed_load fixed_laws s e r n
  show ?thesis by blast
qed

text \<open>
  Claim C6 as written has a deposit of every finite amount succeed. A deposit of
  \<open>10^30\<close> on a row with a balance of \<open>0\<close> does not: the library does not encode the
  amount, the route raises and the balance stays as it was.
\<close>

theorem deposit_huge_amount_counterexample:
  "query_get [alice (Some (serialize fixed_ctx 0))] 1 = Some (alice (Some (serialize fixed_ctx 0))) \<and>
   load_balance fixed_ctx (alice (Some (serialize fixed_ctx 0))) = Some 0 \<and>
   deposit fixed_ctx (Some 1) POST (Finite (10 ^ 30)) [alice (Some (serialize fixed_ctx 0))] =
     (Raised Encoding_failed, [alice (Some (serialize fixed_ctx 0))]) \<and>
   fst (deposit fixed_ctx (Some 1) POST (Finite (10 ^ 30)) [alice (Some (serialize fixed_ctx 0))])
     \<noteq> Success"
proof -
  have "deposit fixed_ctx (Some 1) POST (Finite (10 ^ 30)) [alice (Some (serialize fixed_ctx 0))] =
     (Raised Encoding_failed, [alice (Some (serialize fixed_ctx 0))])"
    by (simp add: deposit_def alice_get_Suc fixed_load fixed_encode_none)
  with alice_get fixed_load show ?thesis by simp
qed

subsection \<open>Withdraw\<close>

text \<open>
  Claim C4, as the code has it. Withdraw has no check of the sign of the amount. For a row
  whose stored blob is non-empty and deserializes to a ciphertext \<open>c\<close>: a withdrawal of
  a finite amount succeeds exactly when the amount is at most the decrypted balance
  rounded to two fractional digits and the library encodes the amount, and then stores
  the serialized difference of \<open>c\<close> and the encrypted amount; with an amount above the
  rounded balance it fails, with one that the library does not encode it raises, and in
  both cases the table is unchanged. With an amount that is not finite it never
  succeeds and the table is unchanged: not-a-number and the positive infinity fail the
  comparison, the negative infinity passes it and is refused by the encoder, given that
  the library does not encode it.
\<close>

theorem withdraw_rule:
  assumes get: "query_get d i = Some u" and blob: "encrypted_balance u = Some blob"
    and ne: "blob \<noteq> []" and des: "ckks_vector_from ctx blob = Some c"
  shows "withdraw ctx (Some i) POST (Finite amount) d =
           (if amount \<le> py_round2 ctx (decrypt ctx c)
            then (case ckks_vector ctx (Finite amount) of
                    None \<Rightarrow> (Raised Encoding_failed, d)
                  | Some wa \<Rightarrow> (Success, store_blob d i (serialize ctx (ckks_sub ctx c wa))))
            else (Failure, d)) \<and>
         withdraw ctx (Some i) POST NaN d = (Failure, d) \<and>
         withdraw ctx (Some i) POST PosInf d = (Failure, d) \<and>
         (ckks_vector ctx NegInf = None \<longrightarrow>
            withdraw ctx (Some i) POST NegInf d = (Raised Encoding_failed, d))"
proof -
  from balance_loaded [OF blob ne des]
  have b: "balance ctx u = Inr (py_round2 ctx (decrypt ctx c))" and l: "load_balance ctx u = Some c"
    by simp_all
  from get have uid: "uid u = i" by (rule query_get_uid)
  from get b l uid have "withdraw ctx (Some i) POST (Finite amount) d =
           (if amount \<le> py_round2 ctx (decrypt ctx c)
            then (case ckks_vector ctx (Finite amount) of
                    None \<Rightarrow> (Raised Encoding_failed, d)
                  | Some wa \<Rightarrow> (Success, store_blob d i (serialize ctx (ckks_sub ctx c wa))))
            else (Failure, d))"
    by (simp add: withdraw_def Let_def split: option.splits)
  moreover from get b have "withdraw ctx (Some i) POST NaN d = (Failure, d)"
    by (simp add: withdraw_def)
  moreover from get b have "withdraw ctx (Some i) POST PosInf d = (Failure, d)"
    by (simp add: withdraw_def)
  moreover from get b l have "withdraw ctx (Some i) POST NegInf d = (Raised Encoding_failed, d)"
    if "ckks_vector ctx NegInf = None"
    using that by (simp add: withdraw_def)
  ultimately show ?thesis by blast
qed

theorem withdraw_rule_witness:
  "withdraw fixed_ctx (Some 1) POST (Finite 40) [alice (Some (serialize fixed_ctx 100000000))] =
     (Success, [alice (Some (serialize fixed_ctx 60000000))]) \<and>
   withdraw fixed_ctx (Some 1) POST (Finite 1000) [alice (Some (serialize fixed_ctx 100000000))] =
     (Failure, [alice (Some (serialize fixed_ctx 100000000))]) \<and>
   withdraw fixed_ctx (Some 1) POST (Finite (- (10 ^ 30))) [alice (Some (serialize fixed_ctx 100000000))] =
     (Raised Encoding_failed, [alice (Some (serialize fixed_ctx 100000000))]) \<and>
   withdraw fixed_ctx (Some 1) POST NaN [alice (Some (serialize fixed_ctx 100000000))] =
     (Failure, [alice (Some (serialize fixed_ctx 100000000))]) \<and>
   withdraw fixed_ctx (Some 1) POST PosInf [alice (Some (serialize fixed_ctx 100000000))] =
     (Failure, [alice (Some (serialize fixed_ctx 100000000))]) \<and>
   ckks_vector fixed_ctx NegInf = None \<and>
   withdraw fixed_ctx (Some 1) POST NegInf [alice (Some (serialize fixed_ctx 100000000))] =
     (Raised Encoding_failed, [alice (Some (serialize fixed_ctx 100000000))])"
proof -
  note f = fixed_blob [of 100000000]
  note w = withdraw_rule [OF alice_get conjunct1 [OF f] conjunct1 [OF conjunct2 [OF f]]
      conjunct2 [OF conjunct2 [OF f]]]
  have r: "py_round2 fixed_ctx (decrypt fixed_ctx 100000000) = 100"
    using fixed_round_whole [of 100] by simp
  have e: "ckks_vector fixed_ctx (Finite 40) = Some 40000000"
    "ckks_vector fixed_ctx (Finite (- (10 ^ 30))) = None"
    by (simp_all add: fixed_ctx_def)
  have c: "ckks_sub fixed_ctx 100000000 40000000 = 60000000"
    by (simp add: fixed_ctx_def)
  have 1: "withdraw fixed_ctx (Some 1) POST (Finite 40) [alice (Some (serialize fixed_ctx 100000000))] =
     (Success, [alice (Some (serialize fixed_ctx 60000000))])"
    using w [of 40] by (simp add: r e c store_alice)
  have 2: "withdraw fixed_ctx (Some 1) POST (Finite 1000) [alice (Some (serialize fixed_ctx 100000000))] =
     (Failure, [alice (Some (serialize fixed_ctx 100000000))])"
    using w [of 1000] by (simp add: r)
  have 3: "withdraw fixed_ctx (Some 1) POST (Finite (- (10 ^ 30))) [alice (Some (serialize fixed_ctx 100000000))] =
     (Raised Encoding_failed, [alice (Some (serialize fixed_ctx 100000000))])"
    using w [of "- (10 ^ 30)"] by (simp only: r e) simp
  note nf = conjunct2 [OF w [of 0]]
  from 1 2 3 nf fixed_encode_nonfinite show ?thesis by simp
qed

text \<open>
  Claim C4 as written, that a withdrawal of an amount that is not positive fails and
  leaves the balance alone, does not hold: a withdrawal of \<open>-50\<close> from a balance of
  \<open>0\<close> succeeds and leaves a balance of \<open>50\<close>.
\<close>

theorem withdraw_negative_amount_counterexample:
  "\<not> (0 < (- 50 :: real)) \<and>
   balance fixed_ctx (alice (Some (serialize fixed_ctx 0))) = Inr 0 \<and>
   withdraw fixed_ctx (Some 1) POST (Finite (- 50)) [alice (Some (serialize fixed_ctx 0))] =
     (Success, [alice (Some (serialize fixed_ctx 50000000))]) \<and>
   [alice (Some (serialize fixed_ctx 50000000))] \<noteq> [alice (Some (serialize fixed_ctx 0))] \<and>
   balance fixed_ctx (alice (Some (serialize fixed_ctx 50000000))) = Inr 50"
proof -
  have b: "balance fixed_ctx (alice (Some (serialize fixed_ctx 0))) = Inr 0"
    using fixed_round_whole [of 0] by (simp add: fixed_balance)
  have b': "balance fixed_ctx (alice (Some (serialize fixed_ctx 50000000))) = Inr 50"
    using fixed_round_whole [of 50] by (simp add: fixed_balance)
  have e: "ckks_vector fixed_ctx (Finite (- 50)) = Some (- 50000000)"
    by (simp add: fixed_ctx_def)
  have c: "ckks_sub fixed_ctx 0 (- 50000000) = 50000000"
    by (simp add: fixed_ctx_def)
  have w: "withdraw fixed_ctx (Some 1) POST (Finite (- 50)) [alice (Some (serialize fixed_ctx 0))] =
     (Success, [alice (Some (serialize fixed_ctx 50000000))])"
    by (simp add: withdraw_def alice_get_Suc alice_uid b fixed_load Let_def e c store_alice)
  have n: "[alice (Some (serialize fixed_ctx 50000000))] \<noteq> [alice (Some (serialize fixed_ctx 0))]"
    by (simp add: alice_def fixed_serialize_inj)
  from b b' w n show ?thesis by simp
qed

subsection \<open>Transfer\<close>

text \<open>
  Claim C3, as the code has it. A transfer to a recipient name that no row carries is
  refused and the table is unchanged.
\<close>

theorem transfer_unknown_recipient:
  assumes "query_first d name = None"
  shows "transfer ctx (Some i) POST amount name d = (Failure, d)"
  using assms by (simp add: transfer_def)

theorem transfer_unknown_recipient_witness:
  "query_first [alice (Some (serialize fixed_ctx 100000000))] ''carol'' = None \<and>
   transfer fixed_ctx (Some 1) POST (Finite 40) ''carol'' [alice (Some (serialize fixed_ctx 100000000))] =
     (Failure, [alice (Some (serialize fixed_ctx 100000000))])"
proof -
  have n: "query_first [alice (Some (serialize fixed_ctx 100000000))] ''carol'' = None"
    by (simp add: query_first_def alice_def)
  from n transfer_unknown_recipient [OF n, of fixed_ctx 1 "Finite 40"] show ?thesis by simp
qed

text \<open>
  Claim C3 as written also has a transfer refused when the recipient is the sender. It
  is not: the route compares no identities, and a transfer of \<open>40\<close> from alice to alice
  succeeds and changes her stored balance.
\<close>

theorem self_transfer_accepted_counterexample:
  "query_get [alice (Some (serialize fixed_ctx 100000000))] 1 =
     query_first [alice (Some (serialize fixed_ctx 100000000))] ''alice'' \<and>
   query_first [alice (Some (serialize fixed_ctx 100000000))] ''alice'' =
     Some (alice (Some (serialize fixed_ctx 100000000))) \<and>
   transfer fixed_ctx (Some 1) POST (Finite 40) ''alice'' [alice (Some (serialize fixed_ctx 100000000))] =
     (Success, [alice (Some (serialize fixed_ctx 140000000))]) \<and>
   [alice (Some (serialize fixed_ctx 140000000))] \<noteq> [alice (Some (serialize fixed_ctx 100000000))]"
proof -
  have b: "balance fixed_ctx (alice (Some (serialize fixed_ctx 100000000))) = Inr 100"
    using fixed_round_whole [of 100] by (simp add: fixed_balance)
  have e: "ckks_vector fixed_ctx (Finite 40) = Some 40000000"
    by (simp add: fixed_ctx_def)
  have c: "ckks_add fixed_ctx 100000000 40000000 = 140000000"
    "ckks_sub fixed_ctx 100000000 40000000 = 60000000"
    by (simp_all add: fixed_ctx_def)
  have t: "transfer fixed_ctx (Some 1) POST (Finite 40) ''alice'' [alice (Some (serialize fixed_ctx 100000000))] =
     (Success, [alice (Some (serialize fixed_ctx 140000000))])"
    by (simp add: transfer_def alice_get_Suc alice_first b fixed_load Let_def e c alice_uid store_alice)
  have n: "[alice (Some (serialize fixed_ctx 140000000))] \<noteq> [alice (Some (serialize fixed_ctx 100000000))]"
    by (simp add: alice_def fixed_serialize_inj)
  from t n alice_get alice_first show ?thesis by simp
qed

text \<open>
  Claim C5, as the code has it. When the recipient name resolves to the sender's own row,
  the amount is finite and at most the sender's balance as the getter reads it, and the
  library encodes the amount, the transfer succeeds; the debit and the credit are both
  computed from the ciphertext \<open>c\<close> stored before, and the credit is written last, so
  the row ends with the serialized sum of \<open>c\<close> and the encrypted amount. Under the laws
  of the scheme, with the amount and the sum in the supported range, the new balance
  decrypts to the old one plus the amount, within twice the approximation error.
\<close>

theorem self_transfer_creates_money:
  assumes get: "query_get d i = Some u" and first: "query_first d name = Some u"
    and bal: "balance ctx u = Inr b" and le: "m \<le> b" and load: "load_balance ctx u = Some c"
    and enc: "ckks_vector ctx (Finite m) = Some ta"
  shows "transfer ctx (Some i) POST (Finite m) name d =
           (Success, store_blob d i (serialize ctx (ckks_add ctx c ta))) \<and>
         (ckks_laws ctx tol \<and> supported ctx m \<and> supported ctx (decrypt ctx c + decrypt ctx ta) \<longrightarrow>
            (\<exists>u' c'. query_get (snd (transfer ctx (Some i) POST (Finite m) name d)) i = Some u' \<and>
                      load_balance ctx u' = Some c' \<and>
                      \<bar>decrypt ctx c' - (decrypt ctx c + m)\<bar> \<le> 2 * tol))"
proof -
  let ?c' = "ckks_add ctx c ta"
  from get have uid: "uid u = i" by (rule query_get_uid)
  from get first bal le load enc uid have tr: "transfer ctx (Some i) POST (Finite m) name d =
      (Success, store_blob d i (serialize ctx ?c'))"
    by (simp add: transfer_def Let_def store_blob_twice)
  have approx: "\<exists>u' c'. query_get (snd (transfer ctx (Some i) POST (Finite m) name d)) i = Some u' \<and>
                      load_balance ctx u' = Some c' \<and>
                      \<bar>decrypt ctx c' - (decrypt ctx c + m)\<bar> \<le> 2 * tol"
    if laws: "ckks_laws ctx tol" and sup: "supported ctx m"
      and range: "supported ctx (decrypt ctx c + decrypt ctx ta)"
  proof -
    from laws sup enc have e1: "\<bar>decrypt ctx ta - m\<bar> \<le> tol" by (rule encode_accurate)
    from laws range have e2: "\<bar>decrypt ctx ?c' - (decrypt ctx c + decrypt ctx ta)\<bar> \<le> tol"
      by (rule add_accurate)
    from e1 e2 have "\<bar>decrypt ctx ?c' - (decrypt ctx c + m)\<bar> \<le> 2 * tol" by linarith
    moreover have "query_get (snd (transfer ctx (Some i) POST (Finite m) name d)) i =
        Some (u\<lparr>encrypted_balance := Some (serialize ctx ?c')\<rparr>)"
      by (simp add: tr query_get_store_same [OF get])
    moreover have "load_balance ctx (u\<lparr>encrypted_balance := Some (serialize ctx ?c')\<rparr>) = Some ?c'"
      by (rule load_balance_serialize [OF laws])
    ultimately show ?thesis by blast
  qed
  from tr approx show ?thesis by blast
qed

theorem self_transfer_creates_money_witness:
  "query_get [alice (Some (serialize fixed_ctx 100000000))] 1 = Some (alice (Some (serialize fixed_ctx 100000000))) \<and>
   query_first [alice (Some (serialize fixed_ctx 100000000))] ''alice'' = Some (alice (Some (serialize fixed_ctx 100000000))) \<and>
   balance fixed_ctx (alice (Some (serialize fixed_ctx 100000000))) = Inr 100 \<and> (40::real) \<le> 100 \<and>
   load_balance fixed_ctx (alice (Some (serialize fixed_ctx 100000000))) = Some 100000000 \<and>
   ckks_vector fixed_ctx (Finite 40) = Some 40000000 \<and>
   transfer fixed_ctx (Some 1) POST (Finite 40) ''alice'' [alice (Some (serialize fixed_ctx 100000000))] =
     (Success, [alice (Some (serialize fixed_ctx 140000000))]) \<and>
   balance fixed_ctx (alice (Some (serialize fixed_ctx 140000000))) = Inr 140"
proof -
  have b: "balance fixed_ctx (alice (Some (serialize fixed_ctx 100000000))) = Inr 100"
    using fixed_round_whole [of 100] by (simp add: fixed_balance)
  have b': "balance fixed_ctx (alice (Some (serialize fixed_ctx 140000000))) = Inr 140"
    using fixed_round_whole [of 140] by (simp add: fixed_balance)
  have le: "(40::real) \<le> 100" by simp
  have e: "ckks_vector fixed_ctx (Finite 40) = Some 40000000"
    by (simp add: fixed_ctx_def)
  have c: "ckks_add fixed_ctx 100000000 40000000 = 140000000"
    by (simp add: fixed_ctx_def)
  from self_transfer_creates_money [OF alice_get alice_first b le fixed_load e,
      where tol = "1 / 2000000"]
  have "transfer fixed_ctx (Some 1) POST (Finite 40) ''alice'' [alice (Some (serialize fixed_ctx 100000000))] =
     (Success, [alice (Some (serialize fixed_ctx 140000000))])"
    by (simp add: c store_alice)
  with alice_get alice_first b b' le fixed_load e show ?thesis by blast
qed

text \<open>
  Claim C5 as written has the self-transfer succeed for every amount that the comparison
  lets through. An amount of \<open>-10^30\<close> passes the comparison with a balance of \<open>100\<close>,
  but the library does not encode it: the route raises and the balance stays as it was.
\<close>

theorem self_transfer_huge_amount_counterexample:
  "query_get [alice (Some (serialize fixed_ctx 100000000))] 1 =
     query_first [alice (Some (serialize fixed_ctx 100000000))] ''alice'' \<and>
   balance fixed_ctx (alice (Some (serialize fixed_ctx 100000000))) = Inr 100 \<and>
   float_ge 100 (Finite (- (10 ^ 30))) \<and>
   transfer fixed_ctx (Some 1) POST (Finite (- (10 ^ 30))) ''alice''
       [alice (Some (serialize fixed_ctx 100000000))] =
     (Raised Encoding_failed, [alice (Some (serialize fixed_ctx 100000000))])"
proof -
  have b: "balance fixed_ctx (alice (Some (serialize fixed_ctx 100000000))) = Inr 100"
    using fixed_round_whole [of 100] by (simp add: fixed_balance)
  have "transfer fixed_ctx (Some 1) POST (Finite (- (10 ^ 30))) ''alice''
       [alice (Some (serialize fixed_ctx 100000000))] =
     (Raised Encoding_failed, [alice (Some (serialize fixed_ctx 100000000))])"
    by (simp add: transfer_def alice_get_Suc alice_first b fixed_load fixed_encode_none)
  with b alice_get alice_first show ?thesis by simp
qed

subsection \<open>Authorization\<close>

text \<open>
  Claim C10. For a sender whose stored blob is non-empty and deserializes to \<open>c\<close>, and a
  finite amount that the library encodes, Withdraw goes through exactly when the amount
  is at most the decrypted balance rounded to two fractional digits, and then stores the
  debited balance; so does Transfer to an existing recipient whose blob deserializes,
  which then stores the debited and the credited balance. The raw decrypted value plays
  no part: with a raw balance of \<open>99.996\<close> an amount of \<open>100\<close> is authorized by both
  routes, and both change the table.
\<close>

theorem authorization_uses_rounded_balance:
  assumes get: "query_get d i = Some u" and blob: "encrypted_balance u = Some blob"
    and ne: "blob \<noteq> []" and des: "ckks_vector_from ctx blob = Some c"
    and first: "query_first d name = Some r" and load: "load_balance ctx r = Some rc"
    and enc: "ckks_vector ctx (Finite amount) = Some ta"
  shows "withdraw ctx (Some i) POST (Finite amount) d =
           (if amount \<le> py_round2 ctx (decrypt ctx c)
            then (Success, store_blob d i (serialize ctx (ckks_sub ctx c ta)))
            else (Failure, d)) \<and>
         transfer ctx (Some i) POST (Finite amount) name d =
           (if amount \<le> py_round2 ctx (decrypt ctx c)
            then (Success,
                  store_blob (store_blob d i (serialize ctx (ckks_sub ctx c ta)))
                    (uid r) (serialize ctx (ckks_add ctx rc ta)))
            else (Failure, d))"
proof -
  from balance_loaded [OF blob ne des]
  have b: "balance ctx u = Inr (py_round2 ctx (decrypt ctx c))" and l: "load_balance ctx u = Some c"
    by simp_all
  from get have uid: "uid u = i" by (rule query_get_uid)
  from get b l enc uid have "withdraw ctx (Some i) POST (Finite amount) d =
           (if amount \<le> py_round2 ctx (decrypt ctx c)
            then (Success, store_blob d i (serialize ctx (ckks_sub ctx c ta)))
            else (Failure, d))"
    by (simp add: withdraw_def Let_def)
  moreover from get b l first load enc uid have "transfer ctx (Some i) POST (Finite amount) name d =
           (if amount \<le> py_round2 ctx (decrypt ctx c)
            then (Success,
                  store_blob (store_blob d i (serialize ctx (ckks_sub ctx c ta)))
                    (uid r) (serialize ctx (ckks_add ctx rc ta)))
            else (Failure, d))"
    by (simp add: transfer_def Let_def)
  ultimately show ?thesis by blast
qed

theorem authorization_uses_rounded_balance_witness:
  "decrypt fixed_ctx 99996000 < 100 \<and> (100::real) \<le> py_round2 fixed_ctx (decrypt fixed_ctx 99996000) \<and>
   ckks_vector fixed_ctx (Finite 100) = Some 100000000 \<and>
   withdraw fixed_ctx (Some 1) POST (Finite 100) (two_rows 99996000 0) =
     (Success, two_rows (- 4000) 0) \<and>
   transfer fixed_ctx (Some 1) POST (Finite 100) ''bob'' (two_rows 99996000 0) =
     (Success, two_rows (- 4000) 100000000) \<and>
   two_rows (- 4000) 0 \<noteq> two_rows 99996000 0 \<and>
   two_rows (- 4000) 100000000 \<noteq> two_rows 99996000 0"
proof -
  have lt: "decrypt fixed_ctx 99996000 < 100" by (simp add: fixed_ctx_def)
  have r: "py_round2 fixed_ctx (decrypt fixed_ctx 99996000) = 100"
    by (simp add: fixed_ctx_def py_round2_def round_half_even_def Let_def)
  have e: "ckks_vector fixed_ctx (Finite 100) = Some 100000000"
    by (simp add: fixed_ctx_def)
  have c: "ckks_sub fixed_ctx 99996000 100000000 = - 4000"
    "ckks_add fixed_ctx 0 100000000 = 100000000"
    by (simp_all add: fixed_ctx_def)
  note f = fixed_blob [of 99996000]
  from authorization_uses_rounded_balance [OF two_rows_get conjunct1 [OF f]
      conjunct1 [OF conjunct2 [OF f]] conjunct2 [OF conjunct2 [OF f]] two_rows_first_bob
      fixed_load_bob e]
  have "withdraw fixed_ctx (Some 1) POST (Finite 100) (two_rows 99996000 0) =
     (Success, two_rows (- 4000) 0) \<and>
   transfer fixed_ctx (Some 1) POST (Finite 100) ''bob'' (two_rows 99996000 0) =
     (Success, two_rows (- 4000) 100000000)"
    by (simp add: r c bob_uid store_two_rows_alice store_two_rows_bob)
  with lt r e show ?thesis by (simp add: two_rows_inj)
qed

text \<open>
  Claim C2, as the code has it. When the amount is strictly greater than the sender's
  balance as the getter reads it (decrypted and rounded to two fractional digits),
  Withdraw and Transfer are refused and the table is unchanged; and whenever Withdraw or
  Transfer does not succeed, for whatever reason, the table is unchanged.
\<close>

theorem no_overdraw_of_rounded_balance:
  assumes get: "query_get d i = Some u" and bal: "balance ctx u = Inr b" and lt: "b < amount"
  shows "withdraw ctx (Some i) POST (Finite amount) d = (Failure, d) \<and>
         transfer ctx (Some i) POST (Finite amount) name d = (Failure, d) \<and>
         (fst (withdraw ctx s m a e) \<noteq> Success \<longrightarrow> snd (withdraw ctx s m a e) = e) \<and>
         (fst (transfer ctx s m a n e) \<noteq> Success \<longrightarrow> snd (transfer ctx s m a n e) = e)"
proof -
  from get bal lt have "withdraw ctx (Some i) POST (Finite amount) d = (Failure, d)"
    by (simp add: withdraw_def)
  moreover from get bal lt have "transfer ctx (Some i) POST (Finite amount) name d = (Failure, d)"
    by (simp add: transfer_def split: option.splits)
  ultimately show ?thesis
    using withdraw_unchanged [of ctx s m a e] transfer_unchanged [of ctx s m a n e] by blast
qed

theorem no_overdraw_of_rounded_balance_witness:
  "query_get (two_rows 60000000 0) 1 = Some (alice (Some (serialize fixed_ctx 60000000))) \<and>
   balance fixed_ctx (alice (Some (serialize fixed_ctx 60000000))) = Inr 60 \<and> (60::real) < 1000 \<and>
   withdraw fixed_ctx (Some 1) POST (Finite 1000) (two_rows 60000000 0) = (Failure, two_rows 60000000 0) \<and>
   transfer fixed_ctx (Some 1) POST (Finite 1000) ''bob'' (two_rows 60000000 0) = (Failure, two_rows 60000000 0) \<and>
   fst (withdraw fixed_ctx None POST (Finite 10) (two_rows 60000000 0)) \<noteq> Success \<and>
   snd (withdraw fixed_ctx None POST (Finite 10) (two_rows 60000000 0)) = two_rows 60000000 0 \<and>
   fst (transfer fixed_ctx (Some 1) POST (Finite 10) ''carol'' (two_rows 60000000 0)) \<noteq> Success \<and>
   snd (transfer fixed_ctx (Some 1) POST (Finite 10) ''carol'' (two_rows 60000000 0)) = two_rows 60000000 0"
proof -
  have b: "balance fixed_ctx (alice (Some (serialize fixed_ctx 60000000))) = Inr 60"
    using fixed_round_whole [of 60] by (simp add: fixed_balance)
  have lt: "(60::real) < 1000" by simp
  have f1: "fst (withdraw fixed_ctx None POST (Finite 10) (two_rows 60000000 0)) \<noteq> Success"
    by (simp add: withdraw_def)
  have f2: "fst (transfer fixed_ctx (Some 1) POST (Finite 10) ''carol'' (two_rows 60000000 0)) \<noteq> Success"
    by (simp add: transfer_def query_first_def two_rows_def alice_def bob_def)
  from no_overdraw_of_rounded_balance [OF two_rows_get b lt, where name = "''bob''" and s = None
      and m = POST and a = "Finite 10" and e = "two_rows 60000000 0"]
    no_overdraw_of_rounded_balance [OF two_rows_get b lt, where name = "''bob''" and s = "Some 1"
      and m = POST and a = "Finite 10" and n = "''carol''" and e = "two_rows 60000000 0"]
    two_rows_get b lt f1 f2
  show ?thesis by blast
qed

text \<open>
  Claim C2 as written compares the amount with the decrypted balance. Against the raw
  decrypted value it does not hold: with a stored balance that decrypts to \<open>99.996\<close>, a
  withdrawal and a transfer of \<open>100\<close> both succeed and change the table.
\<close>

theorem overdraw_of_raw_balance_counterexample:
  "load_balance fixed_ctx (alice (Some (serialize fixed_ctx 99996000))) = Some 99996000 \<and>
   decrypt fixed_ctx 99996000 < 100 \<and>
   withdraw fixed_ctx (Some 1) POST (Finite 100) (two_rows 99996000 0) = (Success, two_rows (- 4000) 0) \<and>
   transfer fixed_ctx (Some 1) POST (Finite 100) ''bob'' (two_rows 99996000 0) =
     (Success, two_rows (- 4000) 100000000) \<and>
   two_rows (- 4000) 0 \<noteq> two_rows 99996000 0 \<and>
   two_rows (- 4000) 100000000 \<noteq> two_rows 99996000 0"
proof -
  have lt: "decrypt fixed_ctx 99996000 < 100" by (simp add: fixed_ctx_def)
  have b: "balance fixed_ctx (alice (Some (serialize fixed_ctx 99996000))) = Inr 100"
    by (simp add: fixed_balance) (simp add: fixed_ctx_def py_round2_def round_half_even_def Let_def)
  have e: "ckks_vector fixed_ctx (Finite 100) = Some 100000000"
    by (simp add: fixed_ctx_def)
  have c: "ckks_sub fixed_ctx 99996000 100000000 = - 4000"
    "ckks_add fixed_ctx 0 100000000 = 100000000"
    by (simp_all add: fixed_ctx_def)
  have w: "withdraw fixed_ctx (Some 1) POST (Finite 100) (two_rows 99996000 0) = (Success, two_rows (- 4000) 0)"
    by (simp add: withdraw_def two_rows_get_Suc alice_uid b fixed_load Let_def e c store_two_rows_alice)
  have t: "transfer fixed_ctx (Some 1) POST (Finite 100) ''bob'' (two_rows 99996000 0) =
     (Success, two_rows (- 4000) 100000000)"
    by (simp add: transfer_def two_rows_get_Suc two_rows_first_bob alice_uid bob_uid b fixed_load
        fixed_load_bob Let_def e c store_two_rows_alice store_two_rows_bob)
  from lt w t fixed_load show ?thesis by (simp add: two_rows_inj)
qed

subsection \<open>Conservation of the total\<close>

text \<open>
  On a table with distinct primary keys, under the laws of the scheme and with the
  operands in the supported range, a successful deposit raises the total by the amount
  and a successful withdrawal lowers it by the amount, and a successful transfer to a row
  other than the sender's leaves it as it is, each within twice the approximation error;
  so does a sequence of such requests, the errors adding up.
\<close>

lemma query_get_mem: "query_get d i = Some u \<Longrightarrow> u \<in> set d"
  unfolding query_get_def by (induction d) (auto split: if_splits)

lemma query_first_mem: "query_first d name = Some u \<Longrightarrow> u \<in> set d"
  unfolding query_first_def by (induction d) (auto split: if_splits)

lemma total_Cons: "total ctx (u # d) = decrypted ctx u + total ctx d"
  by (simp add: total_def)

lemma store_blob_absent: "i \<notin> uid ` set d \<Longrightarrow> store_blob d i blob = d"
  unfolding store_blob_def by (induction d) auto

lemma uid_store_blob: "map uid (store_blob d i blob) = map uid d"
  unfolding store_blob_def by (induction d) auto

lemma query_get_distinct: "distinct (map uid d) \<Longrightarrow> r \<in> set d \<Longrightarrow> query_get d (uid r) = Some r"
  unfolding query_get_def by (induction d) (auto simp: image_iff)

lemma total_store_blob:
  assumes laws: "ckks_laws ctx tol"
  shows "distinct (map uid d) \<Longrightarrow> query_get d i = Some u \<Longrightarrow>
         total ctx (store_blob d i (serialize ctx c)) = total ctx d - decrypted ctx u + decrypt ctx c"
proof (induction d)
  case Nil
  then show ?case by (simp add: query_get_def)
next
  case (Cons v d)
  show ?case
  proof (cases "uid v = i")
    case True
    with Cons.prems have u: "u = v" and "i \<notin> uid ` set d"
      by (auto simp: query_get_def)
    then have "store_blob (v # d) i (serialize ctx c) =
        v\<lparr>encrypted_balance := Some (serialize ctx c)\<rparr> # d"
      using True store_blob_absent [of i d] by (simp add: store_blob_def)
    moreover have "decrypted ctx (v\<lparr>encrypted_balance := Some (serialize ctx c)\<rparr>) = decrypt ctx c"
      by (simp add: decrypted_def load_balance_serialize [OF laws])
    ultimately show ?thesis by (simp add: total_Cons u)
  next
    case False
    with Cons.prems have "query_get d i = Some u" "distinct (map uid d)"
      by (auto simp: query_get_def)
    with Cons.IH have "total ctx (store_blob d i (serialize ctx c)) =
        total ctx d - decrypted ctx u + decrypt ctx c" by simp
    moreover from False have "store_blob (v # d) i (serialize ctx c) =
        v # store_blob d i (serialize ctx c)" by (simp add: store_blob_def)
    ultimately show ?thesis by (simp add: total_Cons)
  qed
qed

lemma deposit_total:
  assumes laws: "ckks_laws ctx tol" and range: "in_range ctx d amount"
    and dist: "distinct (map uid d)"
    and ok: "deposit ctx session m (Finite amount) d = (Success, d')"
  shows "\<bar>total ctx d' - (total ctx d + amount)\<bar> \<le> 2 * tol"
proof -
  from ok obtain i u c da where get: "query_get d i = Some u" and load: "load_balance ctx u = Some c"
    and enc: "ckks_vector ctx (Finite amount) = Some da"
    and d': "d' = store_blob d (uid u) (serialize ctx (ckks_add ctx c da))"
    by (auto simp: deposit_def Let_def split: option.splits if_splits)
  from get have "uid u = i" by (rule query_get_uid)
  with d' total_store_blob [OF laws dist get] load
  have t: "total ctx d' = total ctx d - decrypt ctx c + decrypt ctx (ckks_add ctx c da)"
    by (simp add: decrypted_def)
  from range have sup: "supported ctx amount" by (simp add: in_range_def)
  from range query_get_mem [OF get] load enc
  have "supported ctx (decrypt ctx c + decrypt ctx da)" unfolding in_range_def by blast
  with laws have "\<bar>decrypt ctx (ckks_add ctx c da) - (decrypt ctx c + decrypt ctx da)\<bar> \<le> tol"
    by (rule add_accurate)
  moreover from laws sup enc have "\<bar>decrypt ctx da - amount\<bar> \<le> tol" by (rule encode_accurate)
  ultimately show ?thesis using t by linarith
qed

lemma withdraw_total:
  assumes laws: "ckks_laws ctx tol" and range: "in_range ctx d amount"
    and dist: "distinct (map uid d)"
    and ok: "withdraw ctx session m (Finite amount) d = (Success, d')"
  shows "\<bar>total ctx d' - (total ctx d - amount)\<bar> \<le> 2 * tol"
proof -
  from ok obtain i u c wa where get: "query_get d i = Some u" and load: "load_balance ctx u = Some c"
    and enc: "ckks_vector ctx (Finite amount) = Some wa"
    and d': "d' = store_blob d (uid u) (serialize ctx (ckks_sub ctx c wa))"
    by (auto simp: withdraw_def Let_def split: option.splits sum.splits if_splits)
  from get have "uid u = i" by (rule query_get_uid)
  with d' total_store_blob [OF laws dist get] load
  have t: "total ctx d' = total ctx d - decrypt ctx c + decrypt ctx (ckks_sub ctx c wa)"
    by (simp add: decrypted_def)
  from range have sup: "supported ctx amount" by (simp add: in_range_def)
  from range query_get_mem [OF get] load enc
  have "supported ctx (decrypt ctx c - decrypt ctx wa)" unfolding in_range_def by blast
  with laws have "\<bar>decrypt ctx (ckks_sub ctx c wa) - (decrypt ctx c - decrypt ctx wa)\<bar> \<le> tol"
    by (rule sub_accurate)
  moreover from laws sup enc have "\<bar>decrypt ctx wa - amount\<bar> \<le> tol" by (rule encode_accurate)
  ultimately show ?thesis using t by linarith
qed

lemma transfer_total:
  assumes laws: "ckks_laws ctx tol" and range: "in_range ctx d amount"
    and dist: "distinct (map uid d)"
    and other: "\<forall>r. query_first d name = Some r \<longrightarrow> Some (uid r) \<noteq> session"
    and ok: "transfer ctx session m (Finite amount) name d = (Success, d')"
  shows "\<bar>total ctx d' - total ctx d\<bar> \<le> 2 * tol"
proof -
  from ok obtain i s r sc rc ta where sess: "session = Some i"
    and get: "query_get d i = Some s" and first: "query_first d name = Some r"
    and ls: "load_balance ctx s = Some sc" and lr: "load_balance ctx r = Some rc"
    and enc: "ckks_vector ctx (Finite amount) = Some ta"
    and d': "d' = store_blob (store_blob d (uid s) (serialize ctx (ckks_sub ctx sc ta)))
                   (uid r) (serialize ctx (ckks_add ctx rc ta))"
    by (auto simp: transfer_def Let_def split: option.splits sum.splits if_splits)
  let ?d1 = "store_blob d (uid s) (serialize ctx (ckks_sub ctx sc ta))"
  from get have us: "uid s = i" by (rule query_get_uid)
  from other first sess us have ne: "uid r \<noteq> uid s" by auto
  from first have rmem: "r \<in> set d" by (rule query_first_mem)
  from dist rmem have getr: "query_get d (uid r) = Some r" by (rule query_get_distinct)
  from us get total_store_blob [OF laws dist get] ls
  have t1: "total ctx ?d1 = total ctx d - decrypt ctx sc + decrypt ctx (ckks_sub ctx sc ta)"
    by (simp add: decrypted_def)
  have dist1: "distinct (map uid ?d1)" using dist by (simp add: uid_store_blob)
  from ne getr have getr1: "query_get ?d1 (uid r) = Some r"
    by (simp add: query_get_store_other)
  from d' total_store_blob [OF laws dist1 getr1] lr
  have t2: "total ctx d' = total ctx ?d1 - decrypt ctx rc + decrypt ctx (ckks_add ctx rc ta)"
    by (simp add: decrypted_def)
  from range query_get_mem [OF get] ls enc
  have "supported ctx (decrypt ctx sc - decrypt ctx ta)" unfolding in_range_def by blast
  with laws have "\<bar>decrypt ctx (ckks_sub ctx sc ta) - (decrypt ctx sc - decrypt ctx ta)\<bar> \<le> tol"
    by (rule sub_accurate)
  moreover from range rmem lr enc
  have "supported ctx (decrypt ctx rc + decrypt ctx ta)" unfolding in_range_def by blast
  with laws have "\<bar>decrypt ctx (ckks_add ctx rc ta) - (decrypt ctx rc + decrypt ctx ta)\<bar> \<le> tol"
    by (rule add_accurate)
  ultimately show ?thesis using t1 t2 by linarith
qed

lemma query_first_store_blob:
  "query_first (store_blob d i blob) name =
     map_option (\<lambda>u. if uid u = i then u\<lparr>encrypted_balance := Some blob\<rparr> else u)
       (query_first d name)"
  unfolding query_first_def store_blob_def by (induction d) auto

lemma to_other_store_blob: "to_other (store_blob d i blob) r = to_other d r"
  by (cases r) (auto simp: query_first_store_blob split: option.splits)

lemma handle_uid: "map uid (snd (handle ctx r d)) = map uid d"
  by (cases r)
    (auto simp: deposit_def withdraw_def transfer_def Let_def uid_store_blob
      split: option.splits sum.splits)

lemma handle_to_other: "to_other (snd (handle ctx r d)) q = to_other d q"
  by (cases r)
    (auto simp: deposit_def withdraw_def transfer_def Let_def to_other_store_blob
      split: option.splits sum.splits)

lemma handle_total:
  assumes laws: "ckks_laws ctx tol" and dist: "distinct (map uid d)"
    and range: "in_range ctx d (amount_of r)" and other: "to_other d r"
  shows "\<bar>total ctx (snd (handle ctx r d)) -
          (total ctx d + (if fst (handle ctx r d) = Success then net r else 0))\<bar> \<le> 2 * tol"
proof (cases "fst (handle ctx r d) = Success")
  case False
  then have "snd (handle ctx r d) = d"
    by (cases r) (auto simp: deposit_unchanged withdraw_unchanged transfer_unchanged)
  with False laws show ?thesis by (simp add: ckks_laws_def)
next
  case True
  then have h: "handle ctx r d = (Success, snd (handle ctx r d))" by (metis prod.collapse)
  show ?thesis
  proof (cases r)
    case (Deposit i a)
    with h range deposit_total [OF laws _ dist, of a "Some i" POST "snd (handle ctx r d)"] True
    show ?thesis by simp
  next
    case (Withdraw i a)
    with h range withdraw_total [OF laws _ dist, of a "Some i" POST "snd (handle ctx r d)"] True
    show ?thesis by simp
  next
    case (Transfer i a name)
    with other have "\<forall>r. query_first d name = Some r \<longrightarrow> Some (uid r) \<noteq> Some i"
      by (auto split: option.splits)
    from transfer_total [OF laws _ dist this, of a POST "snd (handle ctx r d)"] h range Transfer True
    show ?thesis by simp
  qed
qed

lemma run_conserves:
  assumes laws: "ckks_laws ctx tol"
  shows "distinct (map uid d) \<Longrightarrow> \<forall>r \<in> set rs. to_other d r \<Longrightarrow> all_in_range ctx rs d \<Longrightarrow>
         \<bar>total ctx (run ctx rs d) - (total ctx d + net_total ctx rs d)\<bar> \<le> 2 * tol * real (length rs)"
proof (induction rs arbitrary: d)
  case Nil
  then show ?case by simp
next
  case (Cons r rs)
  let ?d = "snd (handle ctx r d)"
  from Cons.prems have step: "\<bar>total ctx ?d -
      (total ctx d + (if fst (handle ctx r d) = Success then net r else 0))\<bar> \<le> 2 * tol"
    by (intro handle_total [OF laws]) simp_all
  from Cons.prems have "distinct (map uid ?d)" by (simp add: handle_uid)
  moreover from Cons.prems have "\<forall>q \<in> set rs. to_other ?d q"
    by (simp add: handle_to_other)
  moreover from Cons.prems have "all_in_range ctx rs ?d" by simp
  ultimately have "\<bar>total ctx (run ctx rs ?d) - (total ctx ?d + net_total ctx rs ?d)\<bar>
      \<le> 2 * tol * real (length rs)" by (rule Cons.IH)
  with step show ?case by (simp add: algebra_simps)
qed

text \<open>
  Claim C1. The total of the decrypted balances is meant to change by deposits and
  withdrawals only. A transfer from alice to herself breaks this: with balances of
  \<open>100\<close> and \<open>0\<close>, the transfer of \<open>40\<close> succeeds and the total becomes \<open>140\<close>.
\<close>

theorem self_transfer_breaks_conservation:
  "total fixed_ctx (two_rows 100000000 0) = 100 \<and>
   transfer fixed_ctx (Some 1) POST (Finite 40) ''alice'' (two_rows 100000000 0) =
     (Success, two_rows 140000000 0) \<and>
   total fixed_ctx (two_rows 140000000 0) = 140"
proof -
  have b: "balance fixed_ctx (alice (Some (serialize fixed_ctx 100000000))) = Inr 100"
    using fixed_round_whole [of 100] by (simp add: fixed_balance)
  have e: "ckks_vector fixed_ctx (Finite 40) = Some 40000000"
    by (simp add: fixed_ctx_def)
  have c: "ckks_add fixed_ctx 100000000 40000000 = 140000000"
    "ckks_sub fixed_ctx 100000000 40000000 = 60000000"
    by (simp_all add: fixed_ctx_def)
  have "transfer fixed_ctx (Some 1) POST (Finite 40) ''alice'' (two_rows 100000000 0) =
     (Success, two_rows 140000000 0)"
    by (simp add: transfer_def two_rows_get_Suc two_rows_first_alice alice_uid b fixed_load
        Let_def e c store_two_rows_alice)
  then show ?thesis by (simp add: total_two_rows)
qed

end
